theory Spec2Isabelle
  imports Complex_Main "HOL-Library.Word"
begin

section \<open>Enumerations of the vendor SDK and of the middleware\<close>

text \<open>
  The driver \<^verbatim>\<open>realsense2Driver.cpp\<close> is glue between two libraries whose headers are
  not part of the repository: the vendor camera SDK (\<^verbatim>\<open>rs2::...\<close>) and the robotics
  middleware (\<^verbatim>\<open>yarp::...\<close>). Their enumerations are datatypes here.
\<close>

text \<open>
  The vendor pixel formats (\<^verbatim>\<open>rs2_format\<close>): the ten the driver names and the other
  members of the enumeration, which the driver sends to its \<^verbatim>\<open>default\<close> branches.
\<close>

datatype rs2_format =
    RS2_FORMAT_ANY
  | RS2_FORMAT_Z16
  | RS2_FORMAT_DISPARITY16
  | RS2_FORMAT_XYZ32F
  | RS2_FORMAT_YUYV
  | RS2_FORMAT_RGB8
  | RS2_FORMAT_BGR8
  | RS2_FORMAT_RGBA8
  | RS2_FORMAT_BGRA8
  | RS2_FORMAT_Y8
  | RS2_FORMAT_Y16
  | RS2_FORMAT_RAW10
  | RS2_FORMAT_RAW16
  | RS2_FORMAT_RAW8
  | RS2_FORMAT_UYVY
  | RS2_FORMAT_MOTION_RAW
  | RS2_FORMAT_MOTION_XYZ32F
  | RS2_FORMAT_GPIO_RAW

text \<open>The middleware pixel codes (\<^verbatim>\<open>VOCAB_PIXEL_...\<close>) the driver produces.\<close>

datatype vocab_pixel =
    VOCAB_PIXEL_INVALID
  | VOCAB_PIXEL_MONO
  | VOCAB_PIXEL_MONO16
  | VOCAB_PIXEL_RGB
  | VOCAB_PIXEL_RGBA
  | VOCAB_PIXEL_BGRA
  | VOCAB_PIXEL_BGR

text \<open>The sensor options (\<^verbatim>\<open>rs2_option\<close>) the driver reads or writes.\<close>

datatype rs2_option =
    RS2_OPTION_EXPOSURE
  | RS2_OPTION_GAIN
  | RS2_OPTION_WHITE_BALANCE
  | RS2_OPTION_SHARPNESS
  | RS2_OPTION_HUE
  | RS2_OPTION_SATURATION
  | RS2_OPTION_ENABLE_AUTO_WHITE_BALANCE
  | RS2_OPTION_ENABLE_AUTO_EXPOSURE
  | RS2_OPTION_ACCURACY
  | RS2_OPTION_MIN_DISTANCE
  | RS2_OPTION_MAX_DISTANCE

datatype rs2_stream = RS2_STREAM_COLOR | RS2_STREAM_DEPTH

datatype FeatureMode = MODE_UNKNOWN | MODE_MANUAL | MODE_AUTO

text \<open>What a vendor call throws: \<^verbatim>\<open>rs2::error\<close>, with its message.\<close>

datatype rs2_error = Rs2_error string

text \<open>
  The camera features arrive as \<^verbatim>\<open>int\<close> and are cast to \<^verbatim>\<open>cameraFeature_id_t\<close>, so they
  stay integers. The values are the positions in the middleware's enumeration, which
  starts with \<^verbatim>\<open>YARP_FEATURE_BRIGHTNESS = 0\<close> and ends with \<^verbatim>\<open>YARP_FEATURE_NUMBER_OF\<close>;
  only the members the driver names are listed. The statements below are in terms of
  the names.
\<close>

definition YARP_FEATURE_BRIGHTNESS :: int where "YARP_FEATURE_BRIGHTNESS = 0"
definition YARP_FEATURE_EXPOSURE :: int where "YARP_FEATURE_EXPOSURE = 1"
definition YARP_FEATURE_SHARPNESS :: int where "YARP_FEATURE_SHARPNESS = 2"
definition YARP_FEATURE_WHITE_BALANCE :: int where "YARP_FEATURE_WHITE_BALANCE = 3"
definition YARP_FEATURE_HUE :: int where "YARP_FEATURE_HUE = 4"
definition YARP_FEATURE_SATURATION :: int where "YARP_FEATURE_SATURATION = 5"
definition YARP_FEATURE_GAIN :: int where "YARP_FEATURE_GAIN = 8"
definition YARP_FEATURE_FRAME_RATE :: int where "YARP_FEATURE_FRAME_RATE = 15"
definition YARP_FEATURE_MIRROR :: int where "YARP_FEATURE_MIRROR = 22"
definition YARP_FEATURE_NUMBER_OF :: int where "YARP_FEATURE_NUMBER_OF = 23"

section \<open>The vendor objects the driver holds\<close>

text \<open>
  A sensor of the device, as far as the driver uses it: which options it supports, the
  value each option holds, and when \<^verbatim>\<open>set_option\<close> and \<^verbatim>\<open>get_option\<close> throw.
  Option values are \<^verbatim>\<open>float\<close> in the SDK and reals here; rounding is not modelled.
\<close>

record rs2_sensor =
  supports :: "rs2_option \<Rightarrow> bool"
  option_value :: "rs2_option \<Rightarrow> real"
  set_option_throws :: "rs2_option \<Rightarrow> real \<Rightarrow> bool"
  get_option_throws :: "rs2_option \<Rightarrow> bool"

text \<open>The two sensor pointers of the driver; \<open>None\<close> is \<^verbatim>\<open>nullptr\<close>.\<close>

datatype sensor_ptr = Color_sensor | Depth_sensor

text \<open>
  Camera model of one stream (\<^verbatim>\<open>rs2_intrinsics\<close>) and the rigid transform between two
  streams (\<^verbatim>\<open>rs2_extrinsics\<close>: rotation and translation).
\<close>

record rs2_intrinsics =
  width :: int
  height :: int
  ppx :: real
  ppy :: real
  fx :: real
  fy :: real
  coeffs :: "real list"

type_synonym rs2_extrinsics = "real list \<times> real list"

text \<open>What the active pipeline profile tells \<^verbatim>\<open>updateTransformations\<close>.\<close>

record pipeline_profile =
  depth_intrinsics :: rs2_intrinsics
  color_intrinsics :: rs2_intrinsics
  depth_to_color :: rs2_extrinsics
  color_to_depth :: rs2_extrinsics

text \<open>
  The stream configuration \<^verbatim>\<open>rs2::config\<close>: for each enabled stream the requested width,
  height, format and frame rate.
\<close>

type_synonym stream_request = "int \<times> int \<times> rs2_format \<times> int"
type_synonym rs2_config = "rs2_stream \<rightharpoonup> stream_request"

definition enable_stream ::
  "rs2_stream \<Rightarrow> int \<Rightarrow> int \<Rightarrow> rs2_format \<Rightarrow> int \<Rightarrow> rs2_config \<Rightarrow> rs2_config" where
  "enable_stream s w h fmt fps cfg = cfg(s \<mapsto> (w, h, fmt, fps))"

text \<open>
  Frames as the capture code reads them. \<^verbatim>\<open>get_width()\<close> and \<^verbatim>\<open>get_height()\<close> of a
  video frame return \<^verbatim>\<open>int\<close>; the colour conversion multiplies them.
\<close>

record video_frame =
  frame_format :: rs2_format
  frame_width :: int
  frame_height :: int
  frame_data :: "8 word list"

record depth_frame =
  depth_format :: rs2_format
  depth_width :: nat
  depth_height :: nat
  get_distance :: "nat \<Rightarrow> nat \<Rightarrow> real"

record frameset =
  get_color_frame :: video_frame
  get_depth_frame :: depth_frame

text \<open>
  The pipeline. The SDK decides what \<^verbatim>\<open>start\<close>, \<^verbatim>\<open>stop\<close> and \<^verbatim>\<open>wait_for_frames\<close> do, so
  their outcomes at the next call are data of the object: \<open>Inl\<close> is a thrown
  \<^verbatim>\<open>rs2::error\<close>. \<open>start_outcome\<close> is the profile the SDK negotiates for a configuration.
\<close>

record rs2_pipeline =
  start_outcome :: "rs2_config \<Rightarrow> rs2_error + pipeline_profile"
  stop_outcome :: "rs2_error + unit"
  wait_outcome :: "rs2_error + frameset"
  align_process :: "frameset \<Rightarrow> frameset"
  get_active_profile :: pipeline_profile

text \<open>The vendor calls the driver performs, most recent first.\<close>

datatype sdk_call =
    Call_supports sensor_ptr rs2_option
  | Call_set_option sensor_ptr rs2_option real
  | Call_get_option sensor_ptr rs2_option
  | Call_start
  | Call_stop
  | Call_wait_for_frames

section \<open>The driver\<close>

text \<open>
  The members of the class that the modelled methods read or write. A stamp is its
  sequence number. \<open>sdk_calls\<close> is not a member: it records the vendor calls made, so
  that a method that makes none leaves the whole record unchanged.
\<close>

record realsense2Driver =
  m_cfg :: rs2_config
  m_pipeline :: rs2_pipeline
  m_depth_sensor :: "rs2_sensor option"
  m_color_sensor :: "rs2_sensor option"
  m_depth_intrin :: rs2_intrinsics
  m_color_intrin :: rs2_intrinsics
  m_depth_to_color :: rs2_extrinsics
  m_color_to_depth :: rs2_extrinsics
  m_rgb_stamp :: nat
  m_depth_stamp :: nat
  sdk_calls :: "sdk_call list"

definition sensor_at :: "sensor_ptr \<Rightarrow> realsense2Driver \<Rightarrow> rs2_sensor option" where
  "sensor_at p st = (case p of Color_sensor \<Rightarrow> m_color_sensor st | Depth_sensor \<Rightarrow> m_depth_sensor st)"

definition sensor_store :: "sensor_ptr \<Rightarrow> rs2_sensor \<Rightarrow> realsense2Driver \<Rightarrow> realsense2Driver" where
  "sensor_store p s st =
     (case p of Color_sensor \<Rightarrow> st\<lparr>m_color_sensor := Some s\<rparr>
              | Depth_sensor \<Rightarrow> st\<lparr>m_depth_sensor := Some s\<rparr>)"

definition called :: "sdk_call \<Rightarrow> realsense2Driver \<Rightarrow> realsense2Driver" where
  "called c st = st\<lparr>sdk_calls := c # sdk_calls st\<rparr>"

subsection \<open>Option helpers\<close>

text \<open>
  \<^verbatim>\<open>setOption\<close>: a null sensor and an unsupported option fail; a throwing
  \<^verbatim>\<open>set_option\<close> is caught and fails; otherwise the sensor holds the value.
\<close>

definition setOption ::
  "rs2_option \<Rightarrow> sensor_ptr \<Rightarrow> real \<Rightarrow> realsense2Driver \<Rightarrow> bool \<times> realsense2Driver" where
  "setOption opt p v st =
     (case sensor_at p st of
        None \<Rightarrow> (False, st)
      | Some s \<Rightarrow>
          let st1 = called (Call_supports p opt) st in
          if \<not> supports s opt then (False, st1)
          else
            let st2 = called (Call_set_option p opt v) st1 in
            if set_option_throws s opt v then (False, st2)
            else (True, sensor_store p (s\<lparr>option_value := (option_value s)(opt := v)\<rparr>) st2))"

text \<open>
  \<^verbatim>\<open>getOption\<close>: the second component is what was assigned to the reference
  \<^verbatim>\<open>value\<close>, \<open>None\<close> when nothing was.
\<close>

definition getOption ::
  "rs2_option \<Rightarrow> sensor_ptr \<Rightarrow> realsense2Driver \<Rightarrow> bool \<times> real option \<times> realsense2Driver" where
  "getOption opt p st =
     (case sensor_at p st of
        None \<Rightarrow> (False, None, st)
      | Some s \<Rightarrow>
          let st1 = called (Call_supports p opt) st in
          if \<not> supports s opt then (False, None, st1)
          else
            let st2 = called (Call_get_option p opt) st1 in
            if get_option_throws s opt then (False, None, st2)
            else (True, Some (option_value s opt), st2))"

subsection \<open>Pixel formats\<close>

fun pixFormatToCode :: "rs2_format \<Rightarrow> vocab_pixel" where
  "pixFormatToCode RS2_FORMAT_RGB8 = VOCAB_PIXEL_RGB"
| "pixFormatToCode RS2_FORMAT_BGR8 = VOCAB_PIXEL_BGR"
| "pixFormatToCode RS2_FORMAT_Z16 = VOCAB_PIXEL_MONO16"
| "pixFormatToCode RS2_FORMAT_DISPARITY16 = VOCAB_PIXEL_MONO16"
| "pixFormatToCode RS2_FORMAT_RGBA8 = VOCAB_PIXEL_RGBA"
| "pixFormatToCode RS2_FORMAT_BGRA8 = VOCAB_PIXEL_BGRA"
| "pixFormatToCode RS2_FORMAT_Y8 = VOCAB_PIXEL_MONO"
| "pixFormatToCode RS2_FORMAT_Y16 = VOCAB_PIXEL_MONO16"
| "pixFormatToCode RS2_FORMAT_RAW16 = VOCAB_PIXEL_MONO16"
| "pixFormatToCode RS2_FORMAT_RAW8 = VOCAB_PIXEL_MONO"
| "pixFormatToCode _ = VOCAB_PIXEL_INVALID"

fun bytesPerPixel :: "rs2_format \<Rightarrow> nat" where
  "bytesPerPixel RS2_FORMAT_RAW8 = 1"
| "bytesPerPixel RS2_FORMAT_Y8 = 1"
| "bytesPerPixel RS2_FORMAT_Z16 = 2"
| "bytesPerPixel RS2_FORMAT_DISPARITY16 = 2"
| "bytesPerPixel RS2_FORMAT_Y16 = 2"
| "bytesPerPixel RS2_FORMAT_RAW16 = 2"
| "bytesPerPixel RS2_FORMAT_RGB8 = 3"
| "bytesPerPixel RS2_FORMAT_BGR8 = 3"
| "bytesPerPixel RS2_FORMAT_RGBA8 = 4"
| "bytesPerPixel RS2_FORMAT_BGRA8 = 4"
| "bytesPerPixel _ = 0"

subsection \<open>Camera features\<close>

text \<open>The constructor's \<^verbatim>\<open>push_back\<close> calls, in their order; the vector never changes.\<close>

definition m_supportedFeatures :: "int list" where
  "m_supportedFeatures =
     [YARP_FEATURE_EXPOSURE, YARP_FEATURE_WHITE_BALANCE, YARP_FEATURE_GAIN,
      YARP_FEATURE_FRAME_RATE, YARP_FEATURE_SHARPNESS, YARP_FEATURE_HUE,
      YARP_FEATURE_SATURATION]"

text \<open>
  \<^verbatim>\<open>hasFeature(feature, &b)\<close>: \<open>None\<close> is the return value \<^verbatim>\<open>false\<close> (nothing is
  written to \<^verbatim>\<open>b\<close>); \<open>Some b\<close> is \<^verbatim>\<open>true\<close> with \<^verbatim>\<open>b\<close> written.
\<close>

definition hasFeature :: "int \<Rightarrow> bool option" where
  "hasFeature feature =
     (if feature < YARP_FEATURE_BRIGHTNESS \<or> feature > YARP_FEATURE_NUMBER_OF - 1 then None
      else if feature \<in> set m_supportedFeatures then Some True
      else Some False)"

text \<open>The guard \<^verbatim>\<open>!hasFeature(feature, &b) || !b\<close> that opens every feature method.\<close>

definition not_supported :: "int \<Rightarrow> bool" where
  "not_supported feature = (case hasFeature feature of None \<Rightarrow> True | Some b \<Rightarrow> \<not> b)"

text \<open>
  \<^verbatim>\<open>setFeature(int, double)\<close>. The \<^verbatim>\<open>default\<close> branch of the switch is kept although the
  guard leaves no feature for it.
\<close>

definition setFeature :: "int \<Rightarrow> real \<Rightarrow> realsense2Driver \<Rightarrow> bool \<times> realsense2Driver" where
  "setFeature feature v st =
     (if not_supported feature then (False, st)
      else if feature = YARP_FEATURE_EXPOSURE then setOption RS2_OPTION_EXPOSURE Color_sensor v st
      else if feature = YARP_FEATURE_GAIN then setOption RS2_OPTION_GAIN Color_sensor v st
      else if feature = YARP_FEATURE_FRAME_RATE then (False, st)
      else if feature = YARP_FEATURE_WHITE_BALANCE
        then setOption RS2_OPTION_WHITE_BALANCE Color_sensor v st
      else if feature = YARP_FEATURE_SHARPNESS then setOption RS2_OPTION_SHARPNESS Color_sensor v st
      else if feature = YARP_FEATURE_HUE then setOption RS2_OPTION_HUE Color_sensor v st
      else if feature = YARP_FEATURE_SATURATION
        then setOption RS2_OPTION_SATURATION Color_sensor v st
      else (False, st))"

text \<open>
  The getters pass \<^verbatim>\<open>(float&) value\<close> to \<^verbatim>\<open>getOption\<close>, where \<^verbatim>\<open>value\<close> is the pointer
  parameter: the reference is to the parameter itself, so the option read lands in the
  callee's copy of the pointer and the caller's variable is never assigned. The second
  component of the result, what the caller's variable receives, is therefore \<open>None\<close>.
\<close>

definition read_into_parameter ::
  "bool \<times> real option \<times> realsense2Driver \<Rightarrow> bool \<times> 'a option \<times> realsense2Driver" where
  "read_into_parameter r = (case r of (b, _, st) \<Rightarrow> (b, None, st))"

definition getFeature :: "int \<Rightarrow> realsense2Driver \<Rightarrow> bool \<times> real option \<times> realsense2Driver" where
  "getFeature feature st =
     (if not_supported feature then (False, None, st)
      else if feature = YARP_FEATURE_EXPOSURE
        then read_into_parameter (getOption RS2_OPTION_EXPOSURE Color_sensor st)
      else if feature = YARP_FEATURE_GAIN
        then read_into_parameter (getOption RS2_OPTION_GAIN Color_sensor st)
      else if feature = YARP_FEATURE_FRAME_RATE then (False, None, st)
      else if feature = YARP_FEATURE_WHITE_BALANCE
        then read_into_parameter (getOption RS2_OPTION_WHITE_BALANCE Color_sensor st)
      else if feature = YARP_FEATURE_SHARPNESS
        then read_into_parameter (getOption RS2_OPTION_SHARPNESS Color_sensor st)
      else if feature = YARP_FEATURE_HUE
        then read_into_parameter (getOption RS2_OPTION_HUE Color_sensor st)
      else if feature = YARP_FEATURE_SATURATION
        then read_into_parameter (getOption RS2_OPTION_SATURATION Color_sensor st)
      else (False, None, st))"

text \<open>\<^verbatim>\<open>hasOnOff\<close> and \<^verbatim>\<open>hasAuto\<close>: \<open>None\<close> is failure, \<open>Some b\<close> the answer written.\<close>

definition hasOnOff :: "int \<Rightarrow> bool option" where
  "hasOnOff feature =
     (if not_supported feature then None
      else if feature = YARP_FEATURE_WHITE_BALANCE \<or> feature = YARP_FEATURE_MIRROR then Some True
      else Some False)"

definition hasAuto :: "int \<Rightarrow> bool option" where
  "hasAuto feature =
     (if not_supported feature then None
      else if feature = YARP_FEATURE_EXPOSURE \<or> feature = YARP_FEATURE_WHITE_BALANCE then Some True
      else Some False)"

definition no_on_off :: "int \<Rightarrow> bool" where
  "no_on_off feature = (case hasOnOff feature of None \<Rightarrow> True | Some b \<Rightarrow> \<not> b)"

text \<open>\<^verbatim>\<open>setActive\<close>; \<^verbatim>\<open>(float) onoff\<close> is 1 for true and 0 for false.\<close>

definition setActive :: "int \<Rightarrow> bool \<Rightarrow> realsense2Driver \<Rightarrow> bool \<times> realsense2Driver" where
  "setActive feature onoff st =
     (if not_supported feature then (False, st)
      else if no_on_off feature then (False, st)
      else if feature = YARP_FEATURE_WHITE_BALANCE
        then setOption RS2_OPTION_ENABLE_AUTO_WHITE_BALANCE Color_sensor (of_bool onoff) st
      else if feature = YARP_FEATURE_EXPOSURE
        then setOption RS2_OPTION_ENABLE_AUTO_EXPOSURE Color_sensor (of_bool onoff) st
      else (False, st))"

definition getActive :: "int \<Rightarrow> realsense2Driver \<Rightarrow> bool \<times> bool option \<times> realsense2Driver" where
  "getActive feature st =
     (if not_supported feature then (False, None, st)
      else if no_on_off feature then (False, None, st)
      else if feature = YARP_FEATURE_WHITE_BALANCE
        then read_into_parameter (getOption RS2_OPTION_ENABLE_AUTO_WHITE_BALANCE Color_sensor st)
      else if feature = YARP_FEATURE_EXPOSURE
        then read_into_parameter (getOption RS2_OPTION_ENABLE_AUTO_EXPOSURE Color_sensor st)
      else (False, None, st))"

text \<open>\<^verbatim>\<open>setMode\<close>: both switches send \<^verbatim>\<open>MODE_UNKNOWN\<close> to failure.\<close>

definition setMode :: "int \<Rightarrow> FeatureMode \<Rightarrow> realsense2Driver \<Rightarrow> bool \<times> realsense2Driver" where
  "setMode feature mode st =
     (if not_supported feature then (False, st)
      else if feature = YARP_FEATURE_WHITE_BALANCE then
        (case mode of
           MODE_AUTO \<Rightarrow> setOption RS2_OPTION_ENABLE_AUTO_WHITE_BALANCE Color_sensor 1 st
         | MODE_MANUAL \<Rightarrow> setOption RS2_OPTION_ENABLE_AUTO_WHITE_BALANCE Color_sensor 0 st
         | MODE_UNKNOWN \<Rightarrow> (False, st))
      else if feature = YARP_FEATURE_EXPOSURE then
        (case mode of
           MODE_AUTO \<Rightarrow> setOption RS2_OPTION_ENABLE_AUTO_EXPOSURE Color_sensor 1 st
         | MODE_MANUAL \<Rightarrow> setOption RS2_OPTION_ENABLE_AUTO_EXPOSURE Color_sensor 0 st
         | MODE_UNKNOWN \<Rightarrow> (False, st))
      else (False, st))"

text \<open>
  \<^verbatim>\<open>getMode\<close>. One step \<^verbatim>\<open>ret &= getOption(opt, m_color_sensor, res)\<close> of it: \<^verbatim>\<open>res\<close>
  keeps its value when the read assigns nothing.
\<close>

definition read_mode_option ::
  "rs2_option \<Rightarrow> bool \<times> real \<times> realsense2Driver \<Rightarrow> bool \<times> real \<times> realsense2Driver" where
  "read_mode_option opt acc =
     (case acc of (ret, res, st) \<Rightarrow>
        (case getOption opt Color_sensor st of
           (ok, v, st1) \<Rightarrow> (ret \<and> ok, (case v of None \<Rightarrow> res | Some x \<Rightarrow> x), st1)))"

definition getMode :: "int \<Rightarrow> realsense2Driver \<Rightarrow> bool \<times> FeatureMode option \<times> realsense2Driver" where
  "getMode feature st =
     (if not_supported feature then (False, None, st)
      else
        let acc0 = (True, 0, st);
            acc1 = (if feature = YARP_FEATURE_WHITE_BALANCE
                    then read_mode_option RS2_OPTION_ENABLE_AUTO_WHITE_BALANCE acc0 else acc0);
            acc2 = (if feature = YARP_FEATURE_EXPOSURE
                    then read_mode_option RS2_OPTION_ENABLE_AUTO_EXPOSURE acc1 else acc1)
        in case acc2 of (ret, res, st2) \<Rightarrow>
             (ret,
              Some (if res = 0 then MODE_MANUAL else if res = 1 then MODE_AUTO else MODE_UNKNOWN),
              st2))"

subsection \<open>Pipeline control and resolution\<close>

definition pipelineStartup :: "realsense2Driver \<Rightarrow> bool \<times> realsense2Driver" where
  "pipelineStartup st =
     (let st1 = called Call_start st in
      case start_outcome (m_pipeline st1) (m_cfg st1) of
        Inl e \<Rightarrow> (False, st1)
      | Inr profile \<Rightarrow>
          (True, st1\<lparr>m_pipeline := (m_pipeline st1)\<lparr>get_active_profile := profile\<rparr>\<rparr>))"

definition pipelineShutdown :: "realsense2Driver \<Rightarrow> bool \<times> realsense2Driver" where
  "pipelineShutdown st =
     (let st1 = called Call_stop st in
      case stop_outcome (m_pipeline st1) of
        Inl e \<Rightarrow> (False, st1)
      | Inr _ \<Rightarrow> (True, st1))"

text \<open>
  \<^verbatim>\<open>updateTransformations\<close> runs only after a successful start; its reads of the active
  profile are taken not to throw.
\<close>

definition updateTransformations :: "realsense2Driver \<Rightarrow> realsense2Driver" where
  "updateTransformations st =
     (let pipeline_profile = get_active_profile (m_pipeline st) in
      st\<lparr>m_depth_intrin := depth_intrinsics pipeline_profile,
         m_color_intrin := color_intrinsics pipeline_profile,
         m_depth_to_color := depth_to_color pipeline_profile,
         m_color_to_depth := color_to_depth pipeline_profile\<rparr>)"

definition close :: "realsense2Driver \<Rightarrow> bool \<times> realsense2Driver" where
  "close st = (case pipelineShutdown st of (_, st1) \<Rightarrow> (True, st1))"

definition getRgbHeight :: "realsense2Driver \<Rightarrow> int" where
  "getRgbHeight st = height (m_color_intrin st)"

definition getRgbWidth :: "realsense2Driver \<Rightarrow> int" where
  "getRgbWidth st = width (m_color_intrin st)"

text \<open>\<^verbatim>\<open>getRgbResolution(width, height)\<close>: the return value and the two values written.\<close>

definition getRgbResolution :: "realsense2Driver \<Rightarrow> bool \<times> int \<times> int" where
  "getRgbResolution st = (True, width (m_color_intrin st), height (m_color_intrin st))"

definition getDepthHeight :: "realsense2Driver \<Rightarrow> int" where
  "getDepthHeight st = height (m_depth_intrin st)"

definition getDepthWidth :: "realsense2Driver \<Rightarrow> int" where
  "getDepthWidth st = width (m_depth_intrin st)"

definition setDepthResolution :: "int \<Rightarrow> int \<Rightarrow> realsense2Driver \<Rightarrow> bool \<times> realsense2Driver" where
  "setDepthResolution w h st =
     (let st1 = st\<lparr>m_cfg := enable_stream RS2_STREAM_COLOR (width (m_color_intrin st))
                               (height (m_color_intrin st)) RS2_FORMAT_RGB8 0 (m_cfg st)\<rparr>;
          st2 = st1\<lparr>m_cfg := enable_stream RS2_STREAM_DEPTH w h RS2_FORMAT_Z16 0 (m_cfg st1)\<rparr>
      in case pipelineShutdown st2 of
           (stopped, st3) \<Rightarrow>
             if \<not> stopped then (False, st3)
             else (case pipelineStartup st3 of
                     (started, st4) \<Rightarrow>
                       if \<not> started then (False, st4)
                       else (True, updateTransformations st4)))"

definition setRgbResolution :: "int \<Rightarrow> int \<Rightarrow> realsense2Driver \<Rightarrow> bool \<times> realsense2Driver" where
  "setRgbResolution w h st =
     (let st1 = st\<lparr>m_cfg := enable_stream RS2_STREAM_COLOR w h RS2_FORMAT_RGB8 0 (m_cfg st)\<rparr>;
          st2 = st1\<lparr>m_cfg := enable_stream RS2_STREAM_DEPTH (width (m_depth_intrin st1))
                                (height (m_depth_intrin st1)) RS2_FORMAT_Z16 0 (m_cfg st1)\<rparr>
      in case pipelineShutdown st2 of
           (stopped, st3) \<Rightarrow>
             if \<not> stopped then (False, st3)
             else (case pipelineStartup st3 of
                     (started, st4) \<Rightarrow>
                       if \<not> started then (False, st4)
                       else (True, updateTransformations st4)))"

subsection \<open>Capture\<close>

text \<open>
  The destination of a colour capture is the middleware's \<^verbatim>\<open>FlexImage\<close>: a pixel code,
  the dimensions and the raw buffer. How many bytes an image of a given code and size
  takes (\<^verbatim>\<open>getRawImageSize\<close>, which includes the middleware's row padding) and what a
  newly allocated buffer holds are the middleware's business, so both are parameters.
\<close>

record FlexImage =
  getPixelCode :: vocab_pixel
  img_width :: int
  img_height :: int
  getRawImage :: "8 word list"

record image_library =
  raw_image_size :: "vocab_pixel \<Rightarrow> int \<Rightarrow> int \<Rightarrow> nat"
  new_buffer :: "nat \<Rightarrow> 8 word list"

definition setPixelCode :: "vocab_pixel \<Rightarrow> FlexImage \<Rightarrow> FlexImage" where
  "setPixelCode c img = img\<lparr>getPixelCode := c\<rparr>"

definition getRawImageSize :: "image_library \<Rightarrow> FlexImage \<Rightarrow> nat" where
  "getRawImageSize lib img = raw_image_size lib (getPixelCode img) (img_width img) (img_height img)"

definition resize :: "image_library \<Rightarrow> int \<Rightarrow> int \<Rightarrow> FlexImage \<Rightarrow> FlexImage" where
  "resize lib w h img =
     (let n = raw_image_size lib (getPixelCode img) w h in
      img\<lparr>img_width := w, img_height := h,
          getRawImage := (if img_width img = w \<and> img_height img = h \<and> length (getRawImage img) = n
                          then getRawImage img else new_buffer lib n)\<rparr>)"

text \<open>
  The arithmetic of
  \<^verbatim>\<open>size_t mem_to_wrt = color_frm.get_width() * color_frm.get_height() * bytesPerPixel(format)\<close>:
  the first product is formed in 32-bit \<^verbatim>\<open>int\<close> (two's complement wrap-around, as the
  compiled code does), converted to the 64-bit \<^verbatim>\<open>size_t\<close> and multiplied there by the
  bytes per pixel.
\<close>

definition int32_times :: "int \<Rightarrow> int \<Rightarrow> int" where
  "int32_times a b = (a * b + 2 ^ 31) mod 2 ^ 32 - 2 ^ 31"

definition to_size_t :: "int \<Rightarrow> nat" where
  "to_size_t i = nat (i mod 2 ^ 64)"

definition mem_to_wrt :: "video_frame \<Rightarrow> nat" where
  "mem_to_wrt color_frm =
     (to_size_t (int32_times (frame_width color_frm) (frame_height color_frm))
        * bytesPerPixel (frame_format color_frm)) mod 2 ^ 64"

text \<open>
  \<^verbatim>\<open>getImage(FlexImage&, Stamp*, rs2::frameset&)\<close>. The result is the return value, the
  destination image, the stamp written through \<^verbatim>\<open>timeStamp\<close> (\<open>None\<close>: nothing written)
  and the driver. A stamp is its sequence number; \<^verbatim>\<open>update()\<close> advances it.
  \<^verbatim>\<open>memcpy\<close> overwrites the first \<^verbatim>\<open>mem_to_wrt\<close> bytes of the destination buffer.
\<close>

definition getImage_rgb ::
  "image_library \<Rightarrow> FlexImage \<Rightarrow> frameset \<Rightarrow> realsense2Driver
     \<Rightarrow> bool \<times> FlexImage \<times> nat option \<times> realsense2Driver" where
  "getImage_rgb lib Frame sourceFrame st =
     (let color_frm = get_color_frame sourceFrame;
          format = frame_format color_frm;
          pixCode = pixFormatToCode format;
          n = mem_to_wrt color_frm
      in if pixCode = VOCAB_PIXEL_INVALID then (False, Frame, None, st)
         else
           let Frame1 = setPixelCode pixCode Frame;
               Frame2 = resize lib (width (m_color_intrin st)) (height (m_color_intrin st)) Frame1
           in if to_size_t (int (getRawImageSize lib Frame2)) \<noteq> n then (False, Frame2, None, st)
              else
                let Frame3 = Frame2\<lparr>getRawImage :=
                               take n (frame_data color_frm) @ drop n (getRawImage Frame2)\<rparr>;
                    st1 = st\<lparr>m_rgb_stamp := Suc (m_rgb_stamp st)\<rparr>
                in (True, Frame3, Some (m_rgb_stamp st1), st1))"

text \<open>
  The depth destination \<^verbatim>\<open>ImageOf<PixelFloat>\<close>: rows of distances. \<^verbatim>\<open>safePixel\<close> writes
  only inside the image.
\<close>

record depthImage =
  dimg_width :: nat
  dimg_height :: nat
  dimg_rows :: "real list list"

definition depth_resize :: "nat \<Rightarrow> nat \<Rightarrow> depthImage \<Rightarrow> depthImage" where
  "depth_resize w h img =
     (if dimg_width img = w \<and> dimg_height img = h then img
      else \<lparr>dimg_width = w, dimg_height = h, dimg_rows = replicate h (replicate w 0)\<rparr>)"

definition set_safePixel :: "nat \<Rightarrow> nat \<Rightarrow> real \<Rightarrow> depthImage \<Rightarrow> depthImage" where
  "set_safePixel x y v img =
     (if x < dimg_width img \<and> y < dimg_height img \<and> y < length (dimg_rows img)
         \<and> x < length (dimg_rows img ! y)
      then img\<lparr>dimg_rows := (dimg_rows img)[y := (dimg_rows img ! y)[x := v]]\<rparr>
      else img)"

text \<open>The two nested \<^verbatim>\<open>for\<close> loops over \<^verbatim>\<open>x\<close> and \<^verbatim>\<open>y\<close>.\<close>

definition copy_distances :: "depth_frame \<Rightarrow> nat \<Rightarrow> nat \<Rightarrow> depthImage \<Rightarrow> depthImage" where
  "copy_distances depth_frm w h img =
     fold (\<lambda>x. fold (\<lambda>y. set_safePixel x y (get_distance depth_frm x y)) [0..<h]) [0..<w] img"

definition getImage_depth ::
  "depthImage \<Rightarrow> frameset \<Rightarrow> realsense2Driver
     \<Rightarrow> bool \<times> depthImage \<times> nat option \<times> realsense2Driver" where
  "getImage_depth Frame sourceFrame st =
     (let depth_frm = get_depth_frame sourceFrame;
          format = depth_format depth_frm;
          pixCode = pixFormatToCode format;
          w = depth_width depth_frm;
          h = depth_height depth_frm
      in if pixCode = VOCAB_PIXEL_INVALID then (False, Frame, None, st)
         else
           let Frame1 = copy_distances depth_frm w h (depth_resize w h Frame);
               st1 = st\<lparr>m_depth_stamp := Suc (m_depth_stamp st)\<rparr>
           in (True, Frame1, Some (m_depth_stamp st1), st1))"

text \<open>
  The public capture calls. \<^verbatim>\<open>wait_for_frames\<close> is called outside any \<^verbatim>\<open>try\<close> block, so
  what it throws leaves the method: the result is \<open>Inl\<close> of the error then, and \<open>Inr\<close>
  of what the method returns otherwise.
\<close>

definition wait_for_frames :: "realsense2Driver \<Rightarrow> rs2_error + frameset \<times> realsense2Driver" where
  "wait_for_frames st =
     (let st1 = called Call_wait_for_frames st in
      case wait_outcome (m_pipeline st1) of
        Inl e \<Rightarrow> Inl e
      | Inr data \<Rightarrow> Inr (data, st1))"

definition getRgbImage ::
  "image_library \<Rightarrow> FlexImage \<Rightarrow> realsense2Driver
     \<Rightarrow> rs2_error + bool \<times> FlexImage \<times> nat option \<times> realsense2Driver" where
  "getRgbImage lib rgbImage st =
     (case wait_for_frames st of
        Inl e \<Rightarrow> Inl e
      | Inr (data, st1) \<Rightarrow> Inr (getImage_rgb lib rgbImage data st1))"

definition getDepthImage ::
  "depthImage \<Rightarrow> realsense2Driver
     \<Rightarrow> rs2_error + bool \<times> depthImage \<times> nat option \<times> realsense2Driver" where
  "getDepthImage depthImg st =
     (case wait_for_frames st of
        Inl e \<Rightarrow> Inl e
      | Inr (data, st1) \<Rightarrow>
          let aligned_frames = align_process (m_pipeline st1) data
          in Inr (getImage_depth depthImg aligned_frames st1))"

text \<open>
  \<^verbatim>\<open>getImages\<close> joins the two conversions with \<^verbatim>\<open>&\<close>, so both run; they touch different
  images and stamps, and are taken colour first.
\<close>

definition getImages ::
  "image_library \<Rightarrow> FlexImage \<Rightarrow> depthImage \<Rightarrow> realsense2Driver
     \<Rightarrow> rs2_error + bool \<times> FlexImage \<times> depthImage \<times> nat option \<times> nat option \<times> realsense2Driver" where
  "getImages lib colorFrame depthFrame st =
     (case wait_for_frames st of
        Inl e \<Rightarrow> Inl e
      | Inr (data, st1) \<Rightarrow>
          let aligned_frames = align_process (m_pipeline st1) data
          in case getImage_rgb lib colorFrame aligned_frames st1 of
               (ok_c, colorFrame1, colorStamp, st2) \<Rightarrow>
                 (case getImage_depth depthFrame aligned_frames st2 of
                    (ok_d, depthFrame1, depthStamp, st3) \<Rightarrow>
                      Inr (ok_c \<and> ok_d, colorFrame1, depthFrame1, colorStamp, depthStamp, st3)))"

section \<open>Test doubles of the vendor SDK and of the middleware\<close>

text \<open>
  Concrete objects on which the driver is run below. The sensor supports every option
  and never throws. The pipeline negotiates what the configuration requests, where, as in
  the SDK, a requested size of 0 stands for any size and is resolved to 640 by 480; the
  driver itself leaves the frame rate to the SDK in this way, asking for rate 0 in every
  \<^verbatim>\<open>enable_stream\<close>.
\<close>

definition working_sensor :: rs2_sensor where
  "working_sensor =
     \<lparr>supports = (\<lambda>_. True), option_value = (\<lambda>_. 0),
      set_option_throws = (\<lambda>_ _. False), get_option_throws = (\<lambda>_. False)\<rparr>"

definition intrinsics_of_size :: "int \<Rightarrow> int \<Rightarrow> rs2_intrinsics" where
  "intrinsics_of_size w h = \<lparr>width = w, height = h, ppx = 0, ppy = 0, fx = 0, fy = 0, coeffs = []\<rparr>"

definition requested_or :: "int \<Rightarrow> int \<Rightarrow> int" where
  "requested_or d r = (if r = 0 then d else r)"

definition negotiate :: "rs2_config \<Rightarrow> rs2_error + pipeline_profile" where
  "negotiate cfg =
     (case cfg RS2_STREAM_COLOR of
        None \<Rightarrow> Inl (Rs2_error ''no colour stream'')
      | Some (cw, ch, _, _) \<Rightarrow>
          (case cfg RS2_STREAM_DEPTH of
             None \<Rightarrow> Inl (Rs2_error ''no depth stream'')
           | Some (dw, dh, _, _) \<Rightarrow>
               Inr \<lparr>depth_intrinsics = intrinsics_of_size (requested_or 640 dw) (requested_or 480 dh),
                    color_intrinsics = intrinsics_of_size (requested_or 640 cw) (requested_or 480 ch),
                    depth_to_color = ([], []), color_to_depth = ([], [])\<rparr>))"

text \<open>
  Frame sets of two 2 by 2 frames: one the driver can convert, one with two formats it
  does not know, and two in which only the colour or only the depth format is unknown.
\<close>

definition test_frames :: frameset where
  "test_frames =
     \<lparr>get_color_frame = \<lparr>frame_format = RS2_FORMAT_RGB8, frame_width = 2, frame_height = 2,
                          frame_data = [1, 2, 3, 4, 5, 6, 7, 8, 9, 10, 11, 12]\<rparr>,
      get_depth_frame = \<lparr>depth_format = RS2_FORMAT_Z16, depth_width = 2, depth_height = 2,
                          get_distance = (\<lambda>_ _. 1)\<rparr>\<rparr>"

definition yuyv_frames :: frameset where
  "yuyv_frames =
     \<lparr>get_color_frame = \<lparr>frame_format = RS2_FORMAT_YUYV, frame_width = 2, frame_height = 2,
                          frame_data = [1, 2, 3, 4, 5, 6, 7, 8]\<rparr>,
      get_depth_frame = \<lparr>depth_format = RS2_FORMAT_XYZ32F, depth_width = 2, depth_height = 2,
                          get_distance = (\<lambda>_ _. 1)\<rparr>\<rparr>"

definition yuyv_z16_frames :: frameset where
  "yuyv_z16_frames = test_frames\<lparr>get_color_frame := get_color_frame yuyv_frames\<rparr>"

definition rgb8_xyz_frames :: frameset where
  "rgb8_xyz_frames = test_frames\<lparr>get_depth_frame := get_depth_frame yuyv_frames\<rparr>"

definition test_pipeline :: rs2_pipeline where
  "test_pipeline =
     \<lparr>start_outcome = negotiate, stop_outcome = Inr (), wait_outcome = Inr test_frames,
      align_process = (\<lambda>data. data),
      get_active_profile = \<lparr>depth_intrinsics = intrinsics_of_size 2 2,
                             color_intrinsics = intrinsics_of_size 1 1,
                             depth_to_color = ([], []), color_to_depth = ([], [])\<rparr>\<rparr>"

text \<open>
  A driver after \<^verbatim>\<open>open\<close>, whose recorded colour size (1 by 1) is not that of the colour
  frames the pipeline delivers (2 by 2).
\<close>

definition test_driver :: realsense2Driver where
  "test_driver =
     \<lparr>m_cfg = Map.empty, m_pipeline = test_pipeline,
      m_depth_sensor = Some working_sensor, m_color_sensor = Some working_sensor,
      m_depth_intrin = intrinsics_of_size 2 2, m_color_intrin = intrinsics_of_size 1 1,
      m_depth_to_color = ([], []), m_color_to_depth = ([], []),
      m_rgb_stamp = 0, m_depth_stamp = 0, sdk_calls = []\<rparr>"

text \<open>Drivers whose pipeline throws: on waiting for frames, and on \<^verbatim>\<open>stop\<close>.\<close>

definition stalled_driver :: realsense2Driver where
  "stalled_driver =
     test_driver\<lparr>m_pipeline :=
       test_pipeline\<lparr>wait_outcome := Inl (Rs2_error ''Frame did not arrive in time'')\<rparr>\<rparr>"

definition stop_failing_driver :: realsense2Driver where
  "stop_failing_driver =
     test_driver\<lparr>m_pipeline :=
       test_pipeline\<lparr>stop_outcome := Inl (Rs2_error ''stop() called before start()'')\<rparr>\<rparr>"

definition yuyv_driver :: realsense2Driver where
  "yuyv_driver = test_driver\<lparr>m_pipeline := test_pipeline\<lparr>wait_outcome := Inr yuyv_frames\<rparr>\<rparr>"

definition yuyv_z16_driver :: realsense2Driver where
  "yuyv_z16_driver =
     test_driver\<lparr>m_pipeline := test_pipeline\<lparr>wait_outcome := Inr yuyv_z16_frames\<rparr>\<rparr>"

definition rgb8_xyz_driver :: realsense2Driver where
  "rgb8_xyz_driver =
     test_driver\<lparr>m_pipeline := test_pipeline\<lparr>wait_outcome := Inr rgb8_xyz_frames\<rparr>\<rparr>"

text \<open>An image library without row padding whose new buffers are zeroed.\<close>

definition bytes_of_code :: "vocab_pixel \<Rightarrow> nat" where
  "bytes_of_code c =
     (case c of VOCAB_PIXEL_INVALID \<Rightarrow> 0 | VOCAB_PIXEL_MONO \<Rightarrow> 1 | VOCAB_PIXEL_MONO16 \<Rightarrow> 2
      | VOCAB_PIXEL_RGB \<Rightarrow> 3 | VOCAB_PIXEL_RGBA \<Rightarrow> 4 | VOCAB_PIXEL_BGRA \<Rightarrow> 4
      | VOCAB_PIXEL_BGR \<Rightarrow> 3)"

definition packed_images :: image_library where
  "packed_images =
     \<lparr>raw_image_size = (\<lambda>c w h. nat (w * h) * bytes_of_code c),
      new_buffer = (\<lambda>n. replicate n 0)\<rparr>"

definition blank_image :: FlexImage where
  "blank_image =
     \<lparr>getPixelCode = VOCAB_PIXEL_MONO, img_width = 0, img_height = 0, getRawImage = []\<rparr>"

definition blank_depth_image :: depthImage where
  "blank_depth_image = \<lparr>dimg_width = 0, dimg_height = 0, dimg_rows = []\<rparr>"

text \<open>
  A negotiated profile carries a configuration's request when its colour and depth
  intrinsics have the sizes the configuration asks for.
\<close>

definition carries_request :: "rs2_config \<Rightarrow> pipeline_profile \<Rightarrow> bool" where
  "carries_request cfg profile =
     ((case cfg RS2_STREAM_COLOR of
         None \<Rightarrow> False
       | Some (w, h, _, _) \<Rightarrow>
           width (color_intrinsics profile) = w \<and> height (color_intrinsics profile) = h)
      \<and> (case cfg RS2_STREAM_DEPTH of
           None \<Rightarrow> False
         | Some (w, h, _, _) \<Rightarrow>
             width (depth_intrinsics profile) = w \<and> height (depth_intrinsics profile) = h))"

section \<open>Auxiliary facts\<close>

lemmas feature_ids =
  YARP_FEATURE_BRIGHTNESS_def YARP_FEATURE_EXPOSURE_def YARP_FEATURE_SHARPNESS_def
  YARP_FEATURE_WHITE_BALANCE_def YARP_FEATURE_HUE_def YARP_FEATURE_SATURATION_def
  YARP_FEATURE_GAIN_def YARP_FEATURE_FRAME_RATE_def YARP_FEATURE_MIRROR_def
  YARP_FEATURE_NUMBER_OF_def

lemmas test_doubles =
  working_sensor_def intrinsics_of_size_def requested_or_def negotiate_def test_frames_def
  yuyv_frames_def yuyv_z16_frames_def rgb8_xyz_frames_def test_pipeline_def test_driver_def
  stalled_driver_def stop_failing_driver_def yuyv_driver_def yuyv_z16_driver_def
  rgb8_xyz_driver_def bytes_of_code_def packed_images_def blank_image_def blank_depth_image_def

lemmas pipeline_defs =
  pipelineShutdown_def pipelineStartup_def updateTransformations_def called_def
  enable_stream_def

lemma not_supported_iff:
  "not_supported f \<longleftrightarrow>
     f \<notin> {YARP_FEATURE_EXPOSURE, YARP_FEATURE_GAIN, YARP_FEATURE_FRAME_RATE,
          YARP_FEATURE_WHITE_BALANCE, YARP_FEATURE_SHARPNESS, YARP_FEATURE_HUE,
          YARP_FEATURE_SATURATION}"
  by (auto simp: not_supported_def hasFeature_def m_supportedFeatures_def feature_ids)

lemma no_on_off_iff: "no_on_off f \<longleftrightarrow> f \<noteq> YARP_FEATURE_WHITE_BALANCE"
  by (auto simp: no_on_off_def hasOnOff_def not_supported_iff feature_ids)

lemma m_color_intrin_called [simp]: "m_color_intrin (called c st) = m_color_intrin st"
  by (simp add: called_def)

lemma m_pipeline_called [simp]: "m_pipeline (called c st) = m_pipeline st"
  by (simp add: called_def)

lemma m_rgb_stamp_called [simp]: "m_rgb_stamp (called c st) = m_rgb_stamp st"
  by (simp add: called_def)

lemma setOption_success:
  assumes "setOption opt Color_sensor v st = (True, st1)"
  shows "\<exists>s. m_color_sensor st = Some s \<and> supports s opt
             \<and> m_color_sensor st1 = Some (s\<lparr>option_value := (option_value s)(opt := v)\<rparr>)"
  using assms
  by (auto simp: setOption_def sensor_at_def sensor_store_def called_def Let_def
      split: option.splits if_splits)

lemma getOption_reads:
  "m_color_sensor st = Some s \<Longrightarrow> supports s opt \<Longrightarrow>
   getOption opt Color_sensor st
     = (\<not> get_option_throws s opt,
        (if get_option_throws s opt then None else Some (option_value s opt)),
        called (Call_get_option Color_sensor opt) (called (Call_supports Color_sensor opt) st))"
  by (simp add: getOption_def sensor_at_def called_def Let_def)

text \<open>What \<^verbatim>\<open>getMode\<close> reports for the two features with an auto-enable option.\<close>

lemma getMode_white_balance:
  assumes "m_color_sensor st = Some s" and "supports s RS2_OPTION_ENABLE_AUTO_WHITE_BALANCE"
  shows "getMode YARP_FEATURE_WHITE_BALANCE st
         = (\<not> get_option_throws s RS2_OPTION_ENABLE_AUTO_WHITE_BALANCE,
            Some (if get_option_throws s RS2_OPTION_ENABLE_AUTO_WHITE_BALANCE then MODE_MANUAL
                  else if option_value s RS2_OPTION_ENABLE_AUTO_WHITE_BALANCE = 0 then MODE_MANUAL
                  else if option_value s RS2_OPTION_ENABLE_AUTO_WHITE_BALANCE = 1 then MODE_AUTO
                  else MODE_UNKNOWN),
            called (Call_get_option Color_sensor RS2_OPTION_ENABLE_AUTO_WHITE_BALANCE)
              (called (Call_supports Color_sensor RS2_OPTION_ENABLE_AUTO_WHITE_BALANCE) st))"
  using assms
  by (simp add: getMode_def not_supported_iff feature_ids read_mode_option_def getOption_reads)

lemma getMode_exposure:
  assumes "m_color_sensor st = Some s" and "supports s RS2_OPTION_ENABLE_AUTO_EXPOSURE"
  shows "getMode YARP_FEATURE_EXPOSURE st
         = (\<not> get_option_throws s RS2_OPTION_ENABLE_AUTO_EXPOSURE,
            Some (if get_option_throws s RS2_OPTION_ENABLE_AUTO_EXPOSURE then MODE_MANUAL
                  else if option_value s RS2_OPTION_ENABLE_AUTO_EXPOSURE = 0 then MODE_MANUAL
                  else if option_value s RS2_OPTION_ENABLE_AUTO_EXPOSURE = 1 then MODE_AUTO
                  else MODE_UNKNOWN),
            called (Call_get_option Color_sensor RS2_OPTION_ENABLE_AUTO_EXPOSURE)
              (called (Call_supports Color_sensor RS2_OPTION_ENABLE_AUTO_EXPOSURE) st))"
  using assms
  by (simp add: getMode_def not_supported_iff feature_ids read_mode_option_def getOption_reads)

lemma getImage_rgb_invalid:
  "pixFormatToCode (frame_format (get_color_frame fs)) = VOCAB_PIXEL_INVALID
   \<Longrightarrow> getImage_rgb lib Frame fs st = (False, Frame, None, st)"
  by (simp add: getImage_rgb_def Let_def)

lemma getImage_depth_invalid:
  "pixFormatToCode (depth_format (get_depth_frame fs)) = VOCAB_PIXEL_INVALID
   \<Longrightarrow> getImage_depth Frame fs st = (False, Frame, None, st)"
  by (simp add: getImage_depth_def Let_def)

lemma m_depth_stamp_called [simp]: "m_depth_stamp (called c st) = m_depth_stamp st"
  by (simp add: called_def)

lemma getImage_rgb_mismatch:
  assumes "pixFormatToCode (frame_format (get_color_frame fs)) \<noteq> VOCAB_PIXEL_INVALID"
    and "to_size_t (int (getRawImageSize lib
           (resize lib (width (m_color_intrin st)) (height (m_color_intrin st))
              (setPixelCode (pixFormatToCode (frame_format (get_color_frame fs))) Frame))))
         \<noteq> mem_to_wrt (get_color_frame fs)"
  shows "getImage_rgb lib Frame fs st
         = (False,
            resize lib (width (m_color_intrin st)) (height (m_color_intrin st))
              (setPixelCode (pixFormatToCode (frame_format (get_color_frame fs))) Frame),
            None, st)"
  using assms by (simp add: getImage_rgb_def Let_def)

lemma getImage_depth_rgb_stamp:
  "m_rgb_stamp (snd (snd (snd (getImage_depth Frame fs st)))) = m_rgb_stamp st"
  by (simp add: getImage_depth_def Let_def)

lemma getImage_depth_valid:
  "pixFormatToCode (depth_format (get_depth_frame fs)) \<noteq> VOCAB_PIXEL_INVALID
   \<Longrightarrow> getImage_depth Frame fs st
       = (True,
          copy_distances (get_depth_frame fs) (depth_width (get_depth_frame fs))
            (depth_height (get_depth_frame fs))
            (depth_resize (depth_width (get_depth_frame fs)) (depth_height (get_depth_frame fs))
               Frame),
          Some (Suc (m_depth_stamp st)), st\<lparr>m_depth_stamp := Suc (m_depth_stamp st)\<rparr>)"
  by (simp add: getImage_depth_def Let_def)

lemma bytesPerPixel_le: "bytesPerPixel fmt \<le> 4"
  by (cases fmt) simp_all

text \<open>Where the product of width and height fits \<^verbatim>\<open>int\<close>, \<^verbatim>\<open>mem_to_wrt\<close> is exact.\<close>

lemma mem_to_wrt_exact:
  assumes "0 \<le> frame_width frm * frame_height frm" and "frame_width frm * frame_height frm < 2 ^ 31"
  shows "mem_to_wrt frm
         = nat (frame_width frm * frame_height frm) * bytesPerPixel (frame_format frm)"
proof -
  let ?p = "frame_width frm * frame_height frm"
  have "int32_times (frame_width frm) (frame_height frm) = ?p"
    using assms by (simp add: int32_times_def)
  moreover have "to_size_t ?p = nat ?p"
    using assms by (simp add: to_size_t_def)
  moreover have "nat ?p * bytesPerPixel (frame_format frm) < 2 ^ 64"
  proof -
    have "nat ?p < 2 ^ 31" using assms by (simp add: nat_less_iff)
    then have "nat ?p * bytesPerPixel (frame_format frm) \<le> 2 ^ 31 * 4"
      using bytesPerPixel_le [of "frame_format frm"] by (intro mult_mono) simp_all
    then show ?thesis by simp
  qed
  ultimately show ?thesis by (simp add: mem_to_wrt_def)
qed

section \<open>The claims\<close>

subsection \<open>C1: colour capture on a size mismatch\<close>

text \<open>
  C1 as stated fails: the colour capture \<^verbatim>\<open>getRgbImage\<close> on a blank destination, with a
  recorded colour size of 1 by 1 and a delivered 2 by 2 RGB8 frame (12 bytes against a
  destination of 3), returns failure, yet the destination comes back with a new pixel
  code, new dimensions and a new buffer.
\<close>

theorem rgb_capture_mismatch_changes_destination:
  "getRgbImage packed_images blank_image test_driver
     = Inr (False,
            \<lparr>getPixelCode = VOCAB_PIXEL_RGB, img_width = 1, img_height = 1,
               getRawImage = [0, 0, 0]\<rparr>,
            None, called Call_wait_for_frames test_driver)
   \<and> \<lparr>getPixelCode = VOCAB_PIXEL_RGB, img_width = 1, img_height = 1, getRawImage = [0, 0, 0]\<rparr>
       \<noteq> blank_image"
  by (simp add: getRgbImage_def wait_for_frames_def getImage_rgb_def setPixelCode_def resize_def
      getRawImageSize_def mem_to_wrt_def int32_times_def to_size_t_def test_doubles called_def
      Let_def numeral_3_eq_3)

text \<open>
  C1 (amended): take a colour frame with a recognised format for which the raw size of the
  destination, once it has been given the frame's pixel code and the recorded
  colour-stream dimensions, differs from \<^verbatim>\<open>mem_to_wrt\<close> as the code computes it (width
  times height in 32-bit \<^verbatim>\<open>int\<close>, widened to \<^verbatim>\<open>size_t\<close> and multiplied by the bytes per
  pixel; the exact product whenever width times height is a non-negative \<^verbatim>\<open>int\<close>). Then
  \<^verbatim>\<open>getRgbImage\<close> returns failure, writes no stamp, leaves the driver as the wait for
  frames left it and copies nothing: the destination is the one it was given with that
  pixel code and those dimensions set. \<^verbatim>\<open>getImages\<close> returns failure with the same colour
  destination and no colour stamp, and does not advance the colour stamp; its depth
  conversion still runs, and the depth image, the depth stamp and the driver are the ones
  that conversion produces.
\<close>

theorem rgb_capture_mismatch_fails:
  assumes "pixFormatToCode (frame_format (get_color_frame fs)) \<noteq> VOCAB_PIXEL_INVALID"
    and "to_size_t (int (getRawImageSize lib
           (resize lib (width (m_color_intrin st)) (height (m_color_intrin st))
              (setPixelCode (pixFormatToCode (frame_format (get_color_frame fs))) Frame))))
         \<noteq> mem_to_wrt (get_color_frame fs)"
  shows "(wait_outcome (m_pipeline st) = Inr fs
            \<longrightarrow> getRgbImage lib Frame st
                = Inr (False,
                       resize lib (width (m_color_intrin st)) (height (m_color_intrin st))
                         (setPixelCode (pixFormatToCode (frame_format (get_color_frame fs))) Frame),
                       None, called Call_wait_for_frames st))
       \<and> (wait_outcome (m_pipeline st) = Inr data \<and> align_process (m_pipeline st) data = fs
            \<longrightarrow> getImages lib Frame depthFrame st
                = (case getImage_depth depthFrame fs (called Call_wait_for_frames st) of
                     (ok_d, depthFrame1, depthStamp, st1) \<Rightarrow>
                       Inr (False,
                            resize lib (width (m_color_intrin st)) (height (m_color_intrin st))
                              (setPixelCode (pixFormatToCode (frame_format (get_color_frame fs)))
                                 Frame),
                            depthFrame1, None, depthStamp, st1))
              \<and> m_rgb_stamp
                   (snd (snd (snd (getImage_depth depthFrame fs (called Call_wait_for_frames st)))))
                 = m_rgb_stamp st)
       \<and> (0 \<le> frame_width (get_color_frame fs) * frame_height (get_color_frame fs)
            \<and> frame_width (get_color_frame fs) * frame_height (get_color_frame fs) < 2 ^ 31
            \<longrightarrow> mem_to_wrt (get_color_frame fs)
                = nat (frame_width (get_color_frame fs) * frame_height (get_color_frame fs))
                    * bytesPerPixel (frame_format (get_color_frame fs)))"
proof (intro conjI impI)
  assume "wait_outcome (m_pipeline st) = Inr fs"
  then show "getRgbImage lib Frame st
                = Inr (False,
                       resize lib (width (m_color_intrin st)) (height (m_color_intrin st))
                         (setPixelCode (pixFormatToCode (frame_format (get_color_frame fs))) Frame),
                       None, called Call_wait_for_frames st)"
    using assms getImage_rgb_mismatch [of fs lib "called Call_wait_for_frames st" Frame]
    by (simp add: getRgbImage_def wait_for_frames_def Let_def)
next
  let ?st = "called Call_wait_for_frames st"
  assume w: "wait_outcome (m_pipeline st) = Inr data \<and> align_process (m_pipeline st) data = fs"
  have rgb: "getImage_rgb lib Frame fs ?st
         = (False,
            resize lib (width (m_color_intrin st)) (height (m_color_intrin st))
              (setPixelCode (pixFormatToCode (frame_format (get_color_frame fs))) Frame),
            None, ?st)"
    using assms getImage_rgb_mismatch [of fs lib ?st Frame] by simp
  from w rgb show "getImages lib Frame depthFrame st
                = (case getImage_depth depthFrame fs ?st of
                     (ok_d, depthFrame1, depthStamp, st1) \<Rightarrow>
                       Inr (False,
                            resize lib (width (m_color_intrin st)) (height (m_color_intrin st))
                              (setPixelCode (pixFormatToCode (frame_format (get_color_frame fs)))
                                 Frame),
                            depthFrame1, None, depthStamp, st1))"
    by (simp add: getImages_def wait_for_frames_def Let_def split: prod.splits)
next
  show "m_rgb_stamp
          (snd (snd (snd (getImage_depth depthFrame fs (called Call_wait_for_frames st)))))
        = m_rgb_stamp st"
    by (simp add: getImage_depth_rgb_stamp)
next
  assume "0 \<le> frame_width (get_color_frame fs) * frame_height (get_color_frame fs)
            \<and> frame_width (get_color_frame fs) * frame_height (get_color_frame fs) < 2 ^ 31"
  then show "mem_to_wrt (get_color_frame fs)
                = nat (frame_width (get_color_frame fs) * frame_height (get_color_frame fs))
                    * bytesPerPixel (frame_format (get_color_frame fs))"
    by (simp add: mem_to_wrt_exact)
qed

theorem rgb_capture_mismatch_fails_witness:
  "pixFormatToCode (frame_format (get_color_frame test_frames)) \<noteq> VOCAB_PIXEL_INVALID
   \<and> to_size_t (int (getRawImageSize packed_images
        (resize packed_images 1 1 (setPixelCode VOCAB_PIXEL_RGB blank_image))))
       \<noteq> mem_to_wrt (get_color_frame test_frames)
   \<and> wait_outcome (m_pipeline test_driver) = Inr test_frames
   \<and> align_process (m_pipeline test_driver) test_frames = test_frames
   \<and> (0::int) \<le> 2 * 2 \<and> (2::int) * 2 < 2 ^ 31
   \<and> mem_to_wrt (get_color_frame test_frames) = 12
   \<and> getRgbImage packed_images blank_image test_driver
       = Inr (False, resize packed_images 1 1 (setPixelCode VOCAB_PIXEL_RGB blank_image), None,
              called Call_wait_for_frames test_driver)
   \<and> getImages packed_images blank_image blank_depth_image test_driver
       = (case getImage_depth blank_depth_image test_frames
                 (called Call_wait_for_frames test_driver) of
            (ok_d, depthFrame1, depthStamp, st1) \<Rightarrow>
              Inr (False, resize packed_images 1 1 (setPixelCode VOCAB_PIXEL_RGB blank_image),
                   depthFrame1, None, depthStamp, st1))"
  using rgb_capture_mismatch_fails
    [of test_frames packed_images test_driver blank_image test_frames blank_depth_image]
  by (simp add: test_doubles getRawImageSize_def resize_def setPixelCode_def mem_to_wrt_def
      int32_times_def to_size_t_def Let_def)

subsection \<open>C2: vendor errors in the capture calls\<close>

text \<open>
  C2, at the input where the code departs from it: when \<^verbatim>\<open>wait_for_frames\<close> throws the
  vendor error, each of the three capture calls lets it escape instead of returning
  failure.
\<close>

theorem capture_lets_vendor_error_escape:
  "getRgbImage packed_images blank_image stalled_driver
     = Inl (Rs2_error ''Frame did not arrive in time'')
   \<and> getDepthImage blank_depth_image stalled_driver
     = Inl (Rs2_error ''Frame did not arrive in time'')
   \<and> getImages packed_images blank_image blank_depth_image stalled_driver
     = Inl (Rs2_error ''Frame did not arrive in time'')"
  by (simp add: getRgbImage_def getDepthImage_def getImages_def wait_for_frames_def test_doubles
      called_def)

subsection \<open>C3: switching a feature on and off\<close>

text \<open>
  C3, at the inputs where the code departs from it. The colour sensor of the driver
  supports every option and never throws, so a write of the exposure auto-enable option
  succeeds; yet \<^verbatim>\<open>setActive\<close> and \<^verbatim>\<open>getActive\<close> of exposure fail without any vendor call,
  because \<^verbatim>\<open>hasOnOff\<close> does not list exposure and their \<^verbatim>\<open>case YARP_FEATURE_EXPOSURE\<close> is
  never reached. And \<^verbatim>\<open>getActive\<close> of white balance returns success without assigning
  the caller's \<^verbatim>\<open>bool\<close>: the option read goes into the pointer parameter.
\<close>

theorem setActive_exposure_fails:
  "fst (setOption RS2_OPTION_ENABLE_AUTO_EXPOSURE Color_sensor 1 test_driver) = True
   \<and> setActive YARP_FEATURE_EXPOSURE True test_driver = (False, test_driver)
   \<and> getActive YARP_FEATURE_EXPOSURE test_driver = (False, None, test_driver)
   \<and> fst (getActive YARP_FEATURE_WHITE_BALANCE test_driver) = True
   \<and> fst (snd (getActive YARP_FEATURE_WHITE_BALANCE test_driver)) = None"
  by (simp add: setActive_def getActive_def no_on_off_iff not_supported_iff feature_ids
      read_into_parameter_def setOption_def getOption_def sensor_at_def sensor_store_def
      called_def test_doubles)

subsection \<open>C4: the supported features\<close>

text \<open>
  C4: \<^verbatim>\<open>hasFeature\<close> reports a feature as present exactly when it is one of the seven
  features of \<^verbatim>\<open>m_supportedFeatures\<close> (exposure, gain, frame rate, white balance,
  sharpness, hue, saturation); it fails outside the range of the enumeration; and for a
  feature that is not one of the seven, \<^verbatim>\<open>setFeature\<close> and \<^verbatim>\<open>getFeature\<close> fail without
  any vendor call (the driver, with its record of calls, is unchanged).
\<close>

theorem hasFeature_supported_set:
  "(hasFeature f = Some True \<longleftrightarrow>
      f \<in> {YARP_FEATURE_EXPOSURE, YARP_FEATURE_GAIN, YARP_FEATURE_FRAME_RATE,
           YARP_FEATURE_WHITE_BALANCE, YARP_FEATURE_SHARPNESS, YARP_FEATURE_HUE,
           YARP_FEATURE_SATURATION})
   \<and> (g < YARP_FEATURE_BRIGHTNESS \<or> g > YARP_FEATURE_NUMBER_OF - 1 \<longrightarrow> hasFeature g = None)
   \<and> (k \<notin> {YARP_FEATURE_EXPOSURE, YARP_FEATURE_GAIN, YARP_FEATURE_FRAME_RATE,
           YARP_FEATURE_WHITE_BALANCE, YARP_FEATURE_SHARPNESS, YARP_FEATURE_HUE,
           YARP_FEATURE_SATURATION}
        \<longrightarrow> setFeature k v st = (False, st) \<and> getFeature k st = (False, None, st))"
proof (intro conjI impI)
  show "hasFeature f = Some True \<longleftrightarrow>
      f \<in> {YARP_FEATURE_EXPOSURE, YARP_FEATURE_GAIN, YARP_FEATURE_FRAME_RATE,
           YARP_FEATURE_WHITE_BALANCE, YARP_FEATURE_SHARPNESS, YARP_FEATURE_HUE,
           YARP_FEATURE_SATURATION}"
    by (auto simp: hasFeature_def m_supportedFeatures_def feature_ids)
next
  assume "g < YARP_FEATURE_BRIGHTNESS \<or> g > YARP_FEATURE_NUMBER_OF - 1"
  then show "hasFeature g = None" by (simp add: hasFeature_def)
next
  assume "k \<notin> {YARP_FEATURE_EXPOSURE, YARP_FEATURE_GAIN, YARP_FEATURE_FRAME_RATE,
           YARP_FEATURE_WHITE_BALANCE, YARP_FEATURE_SHARPNESS, YARP_FEATURE_HUE,
           YARP_FEATURE_SATURATION}"
  then have "not_supported k" by (simp add: not_supported_iff)
  then show "setFeature k v st = (False, st)" by (simp add: setFeature_def)
next
  assume "k \<notin> {YARP_FEATURE_EXPOSURE, YARP_FEATURE_GAIN, YARP_FEATURE_FRAME_RATE,
           YARP_FEATURE_WHITE_BALANCE, YARP_FEATURE_SHARPNESS, YARP_FEATURE_HUE,
           YARP_FEATURE_SATURATION}"
  then have "not_supported k" by (simp add: not_supported_iff)
  then show "getFeature k st = (False, None, st)" by (simp add: getFeature_def)
qed

theorem hasFeature_supported_set_witness:
  "hasFeature YARP_FEATURE_HUE = Some True
   \<and> YARP_FEATURE_NUMBER_OF > YARP_FEATURE_NUMBER_OF - 1
   \<and> hasFeature YARP_FEATURE_NUMBER_OF = None
   \<and> YARP_FEATURE_MIRROR \<notin> {YARP_FEATURE_EXPOSURE, YARP_FEATURE_GAIN, YARP_FEATURE_FRAME_RATE,
           YARP_FEATURE_WHITE_BALANCE, YARP_FEATURE_SHARPNESS, YARP_FEATURE_HUE,
           YARP_FEATURE_SATURATION}
   \<and> hasFeature YARP_FEATURE_MIRROR = Some False
   \<and> setFeature YARP_FEATURE_MIRROR 1 test_driver = (False, test_driver)
   \<and> getFeature YARP_FEATURE_MIRROR test_driver = (False, None, test_driver)"
  using hasFeature_supported_set
    [of YARP_FEATURE_HUE YARP_FEATURE_NUMBER_OF YARP_FEATURE_MIRROR 1 test_driver]
  by (simp add: feature_ids hasFeature_def m_supportedFeatures_def)

subsection \<open>C5: automatic and manual mode\<close>

text \<open>
  C5: for white balance and for exposure, after a successful \<^verbatim>\<open>setMode(feature, AUTO)\<close>
  a \<^verbatim>\<open>getMode(feature)\<close> whose read of the auto-enable option succeeds reports
  \<^verbatim>\<open>MODE_AUTO\<close> (the option reads back 1); for the five other supported features
  \<^verbatim>\<open>setMode\<close> fails without any vendor call; and \<^verbatim>\<open>getMode\<close> turns a readback of 0 into
  \<^verbatim>\<open>MODE_MANUAL\<close>, of 1 into \<^verbatim>\<open>MODE_AUTO\<close> and any other into \<^verbatim>\<open>MODE_UNKNOWN\<close>.
\<close>

theorem setMode_getMode_auto:
  "((f = YARP_FEATURE_WHITE_BALANCE \<or> f = YARP_FEATURE_EXPOSURE)
      \<and> setMode f MODE_AUTO st = (True, st1) \<and> fst (getMode f st1)
     \<longrightarrow> fst (snd (getMode f st1)) = Some MODE_AUTO)
   \<and> (g \<in> {YARP_FEATURE_GAIN, YARP_FEATURE_FRAME_RATE, YARP_FEATURE_SHARPNESS, YARP_FEATURE_HUE,
            YARP_FEATURE_SATURATION}
        \<longrightarrow> setMode g mode st2 = (False, st2))
   \<and> (m_color_sensor st3 = Some s \<and> supports s RS2_OPTION_ENABLE_AUTO_WHITE_BALANCE
        \<and> \<not> get_option_throws s RS2_OPTION_ENABLE_AUTO_WHITE_BALANCE
        \<longrightarrow> fst (snd (getMode YARP_FEATURE_WHITE_BALANCE st3))
            = Some (if option_value s RS2_OPTION_ENABLE_AUTO_WHITE_BALANCE = 0 then MODE_MANUAL
                    else if option_value s RS2_OPTION_ENABLE_AUTO_WHITE_BALANCE = 1 then MODE_AUTO
                    else MODE_UNKNOWN))
   \<and> (m_color_sensor st3 = Some s \<and> supports s RS2_OPTION_ENABLE_AUTO_EXPOSURE
        \<and> \<not> get_option_throws s RS2_OPTION_ENABLE_AUTO_EXPOSURE
        \<longrightarrow> fst (snd (getMode YARP_FEATURE_EXPOSURE st3))
            = Some (if option_value s RS2_OPTION_ENABLE_AUTO_EXPOSURE = 0 then MODE_MANUAL
                    else if option_value s RS2_OPTION_ENABLE_AUTO_EXPOSURE = 1 then MODE_AUTO
                    else MODE_UNKNOWN))"
proof -
  have roundtrip: "fst (snd (getMode f st1)) = Some MODE_AUTO"
    if f: "f = YARP_FEATURE_WHITE_BALANCE \<or> f = YARP_FEATURE_EXPOSURE"
      and s: "setMode f MODE_AUTO st = (True, st1)" and g: "fst (getMode f st1)"
  proof -
    from f show ?thesis
    proof
      assume fw: "f = YARP_FEATURE_WHITE_BALANCE"
      with s have "setOption RS2_OPTION_ENABLE_AUTO_WHITE_BALANCE Color_sensor 1 st = (True, st1)"
        by (simp add: setMode_def not_supported_iff)
      from setOption_success [OF this] obtain s0 where
        s0: "supports s0 RS2_OPTION_ENABLE_AUTO_WHITE_BALANCE"
          "m_color_sensor st1
             = Some (s0\<lparr>option_value := (option_value s0)(RS2_OPTION_ENABLE_AUTO_WHITE_BALANCE := 1)\<rparr>)"
        by blast
      from g show ?thesis unfolding fw
        by (simp add: getMode_white_balance [OF s0(2)] s0(1) split: if_splits)
    next
      assume fe: "f = YARP_FEATURE_EXPOSURE"
      with s have "setOption RS2_OPTION_ENABLE_AUTO_EXPOSURE Color_sensor 1 st = (True, st1)"
        by (simp add: setMode_def not_supported_iff feature_ids)
      from setOption_success [OF this] obtain s0 where
        s0: "supports s0 RS2_OPTION_ENABLE_AUTO_EXPOSURE"
          "m_color_sensor st1
             = Some (s0\<lparr>option_value := (option_value s0)(RS2_OPTION_ENABLE_AUTO_EXPOSURE := 1)\<rparr>)"
        by blast
      from g show ?thesis unfolding fe
        by (simp add: getMode_exposure [OF s0(2)] s0(1) split: if_splits)
    qed
  qed
  have others: "g \<in> {YARP_FEATURE_GAIN, YARP_FEATURE_FRAME_RATE, YARP_FEATURE_SHARPNESS,
                     YARP_FEATURE_HUE, YARP_FEATURE_SATURATION}
        \<longrightarrow> setMode g mode st2 = (False, st2)"
    by (auto simp: setMode_def feature_ids)
  have map_wb: "fst (snd (getMode YARP_FEATURE_WHITE_BALANCE st3))
            = Some (if option_value s RS2_OPTION_ENABLE_AUTO_WHITE_BALANCE = 0 then MODE_MANUAL
                    else if option_value s RS2_OPTION_ENABLE_AUTO_WHITE_BALANCE = 1 then MODE_AUTO
                    else MODE_UNKNOWN)"
    if "m_color_sensor st3 = Some s" "supports s RS2_OPTION_ENABLE_AUTO_WHITE_BALANCE"
       "\<not> get_option_throws s RS2_OPTION_ENABLE_AUTO_WHITE_BALANCE"
    using that by (simp add: getMode_white_balance)
  have map_ex: "fst (snd (getMode YARP_FEATURE_EXPOSURE st3))
            = Some (if option_value s RS2_OPTION_ENABLE_AUTO_EXPOSURE = 0 then MODE_MANUAL
                    else if option_value s RS2_OPTION_ENABLE_AUTO_EXPOSURE = 1 then MODE_AUTO
                    else MODE_UNKNOWN)"
    if "m_color_sensor st3 = Some s" "supports s RS2_OPTION_ENABLE_AUTO_EXPOSURE"
       "\<not> get_option_throws s RS2_OPTION_ENABLE_AUTO_EXPOSURE"
    using that by (simp add: getMode_exposure)
  from roundtrip others map_wb map_ex show ?thesis by blast
qed

theorem setMode_getMode_auto_witness:
  "setMode YARP_FEATURE_EXPOSURE MODE_AUTO test_driver
     = (True, snd (setMode YARP_FEATURE_EXPOSURE MODE_AUTO test_driver))
   \<and> fst (getMode YARP_FEATURE_EXPOSURE (snd (setMode YARP_FEATURE_EXPOSURE MODE_AUTO test_driver)))
   \<and> fst (snd (getMode YARP_FEATURE_EXPOSURE
                 (snd (setMode YARP_FEATURE_EXPOSURE MODE_AUTO test_driver)))) = Some MODE_AUTO
   \<and> setMode YARP_FEATURE_GAIN MODE_AUTO test_driver = (False, test_driver)
   \<and> m_color_sensor test_driver = Some working_sensor
   \<and> supports working_sensor RS2_OPTION_ENABLE_AUTO_WHITE_BALANCE
   \<and> \<not> get_option_throws working_sensor RS2_OPTION_ENABLE_AUTO_WHITE_BALANCE
   \<and> supports working_sensor RS2_OPTION_ENABLE_AUTO_EXPOSURE
   \<and> \<not> get_option_throws working_sensor RS2_OPTION_ENABLE_AUTO_EXPOSURE
   \<and> fst (snd (getMode YARP_FEATURE_WHITE_BALANCE test_driver)) = Some MODE_MANUAL
   \<and> fst (snd (getMode YARP_FEATURE_EXPOSURE test_driver)) = Some MODE_MANUAL"
  using setMode_getMode_auto
    [of YARP_FEATURE_EXPOSURE test_driver "snd (setMode YARP_FEATURE_EXPOSURE MODE_AUTO test_driver)"
        YARP_FEATURE_GAIN MODE_AUTO test_driver test_driver working_sensor]
  by (simp add: setMode_def getMode_def read_mode_option_def not_supported_iff feature_ids
      setOption_def getOption_def sensor_at_def sensor_store_def called_def test_doubles)

subsection \<open>C6: reading the depth resolution back\<close>

text \<open>
  C6 as stated fails: the sizes \<^verbatim>\<open>getDepthWidth\<close> and \<^verbatim>\<open>getDepthHeight\<close> return are
  not the arguments of \<^verbatim>\<open>setDepthResolution\<close> but what the restarted pipeline reports.
  With a pipeline that resolves a request of 0 by 0 (any size) to 640 by 480,
  \<^verbatim>\<open>setDepthResolution(0, 0)\<close> succeeds and the getters return 640 and 480.
\<close>

theorem setDepthResolution_any_size:
  "fst (setDepthResolution 0 0 test_driver) = True
   \<and> getDepthWidth (snd (setDepthResolution 0 0 test_driver)) = 640
   \<and> getDepthHeight (snd (setDepthResolution 0 0 test_driver)) = 480"
  by (simp add: setDepthResolution_def pipeline_defs Let_def getDepthWidth_def getDepthHeight_def
      test_doubles)

text \<open>
  C6 (amended): if \<^verbatim>\<open>setDepthResolution(w, h)\<close> returns success, then the profile of
  the restarted pipeline is the one the SDK negotiated for the new configuration, and
  \<^verbatim>\<open>getDepthWidth\<close>, \<^verbatim>\<open>getDepthHeight\<close> and \<^verbatim>\<open>getRgbResolution\<close> return the sizes of its
  depth and colour intrinsics; whenever that profile carries the sizes the configuration
  requests, these are \<open>w\<close>, \<open>h\<close> and the colour resolution from before the call.
\<close>

theorem setDepthResolution_reads_profile:
  assumes "setDepthResolution w h st = (True, st1)"
  shows "start_outcome (m_pipeline st) (m_cfg st1) = Inr (get_active_profile (m_pipeline st1))
       \<and> getDepthWidth st1 = width (depth_intrinsics (get_active_profile (m_pipeline st1)))
       \<and> getDepthHeight st1 = height (depth_intrinsics (get_active_profile (m_pipeline st1)))
       \<and> getRgbResolution st1
           = (True, width (color_intrinsics (get_active_profile (m_pipeline st1))),
              height (color_intrinsics (get_active_profile (m_pipeline st1))))
       \<and> (carries_request (m_cfg st1) (get_active_profile (m_pipeline st1))
            \<longrightarrow> getDepthWidth st1 = w \<and> getDepthHeight st1 = h
              \<and> getRgbResolution st1 = getRgbResolution st)"
  using assms
  by (auto simp: setDepthResolution_def pipeline_defs Let_def getDepthWidth_def getDepthHeight_def
      getRgbResolution_def carries_request_def split: sum.splits if_splits)

theorem setDepthResolution_reads_profile_witness:
  "setDepthResolution 320 240 test_driver = (True, snd (setDepthResolution 320 240 test_driver))
   \<and> carries_request (m_cfg (snd (setDepthResolution 320 240 test_driver)))
        (get_active_profile (m_pipeline (snd (setDepthResolution 320 240 test_driver))))
   \<and> getDepthWidth (snd (setDepthResolution 320 240 test_driver)) = 320
   \<and> getDepthHeight (snd (setDepthResolution 320 240 test_driver)) = 240
   \<and> getRgbResolution (snd (setDepthResolution 320 240 test_driver)) = getRgbResolution test_driver"
  using setDepthResolution_reads_profile
    [of 320 240 test_driver "snd (setDepthResolution 320 240 test_driver)"]
  by (simp add: setDepthResolution_def pipeline_defs Let_def getDepthWidth_def getDepthHeight_def
      getRgbResolution_def carries_request_def test_doubles)

subsection \<open>C7: pixel formats\<close>

text \<open>
  C7 as stated fails for \<^verbatim>\<open>getImages\<close>: with a colour frame in YUYV, which the driver does
  not recognise, and a depth frame in Z16, the call returns failure and leaves the colour
  image alone, yet it copies the four distances of the depth frame into the depth image
  and advances the depth stamp.
\<close>

theorem getImages_copies_other_frame:
  "pixFormatToCode (frame_format (get_color_frame yuyv_z16_frames)) = VOCAB_PIXEL_INVALID
   \<and> getImages packed_images blank_image blank_depth_image yuyv_z16_driver
     = Inr (False, blank_image,
            \<lparr>dimg_width = 2, dimg_height = 2, dimg_rows = [[1, 1], [1, 1]]\<rparr>,
            None, Some 1,
            (called Call_wait_for_frames yuyv_z16_driver)\<lparr>m_depth_stamp := 1\<rparr>)"
  by (simp add: getImages_def wait_for_frames_def getImage_rgb_def getImage_depth_def
      copy_distances_def depth_resize_def set_safePixel_def test_doubles called_def Let_def
      upt_rec numeral_2_eq_2)

text \<open>
  C7 (amended): \<^verbatim>\<open>pixFormatToCode\<close> gives each of the ten supported vendor formats its
  pixel code and every other format \<^verbatim>\<open>VOCAB_PIXEL_INVALID\<close>. The conversion of a frame
  whose format is not recognised returns failure and leaves the destination image of that
  frame, the stamps and the driver as they were, so \<^verbatim>\<open>getRgbImage\<close> and
  \<^verbatim>\<open>getDepthImage\<close> on such a frame return failure and copy nothing. \<^verbatim>\<open>getImages\<close>
  returns failure when one of its two frames is such a frame and leaves the destination
  of that frame and its stamp alone, but it still runs the conversion of the other frame:
  with an unrecognised colour frame and a recognised depth frame the distances are copied
  into the depth image and the depth stamp advances; with an unrecognised depth frame the
  colour image, colour stamp and driver are the ones the colour conversion produces; with
  both unrecognised nothing is copied.
\<close>

theorem unrecognised_format_fails:
  "pixFormatToCode RS2_FORMAT_RGB8 = VOCAB_PIXEL_RGB
   \<and> pixFormatToCode RS2_FORMAT_BGR8 = VOCAB_PIXEL_BGR
   \<and> pixFormatToCode RS2_FORMAT_Z16 = VOCAB_PIXEL_MONO16
   \<and> pixFormatToCode RS2_FORMAT_DISPARITY16 = VOCAB_PIXEL_MONO16
   \<and> pixFormatToCode RS2_FORMAT_RGBA8 = VOCAB_PIXEL_RGBA
   \<and> pixFormatToCode RS2_FORMAT_BGRA8 = VOCAB_PIXEL_BGRA
   \<and> pixFormatToCode RS2_FORMAT_Y8 = VOCAB_PIXEL_MONO
   \<and> pixFormatToCode RS2_FORMAT_Y16 = VOCAB_PIXEL_MONO16
   \<and> pixFormatToCode RS2_FORMAT_RAW16 = VOCAB_PIXEL_MONO16
   \<and> pixFormatToCode RS2_FORMAT_RAW8 = VOCAB_PIXEL_MONO
   \<and> (fmt \<notin> {RS2_FORMAT_RGB8, RS2_FORMAT_BGR8, RS2_FORMAT_Z16, RS2_FORMAT_DISPARITY16,
               RS2_FORMAT_RGBA8, RS2_FORMAT_BGRA8, RS2_FORMAT_Y8, RS2_FORMAT_Y16,
               RS2_FORMAT_RAW16, RS2_FORMAT_RAW8}
        \<longrightarrow> pixFormatToCode fmt = VOCAB_PIXEL_INVALID)
   \<and> (pixFormatToCode (frame_format (get_color_frame fs)) = VOCAB_PIXEL_INVALID
        \<longrightarrow> getImage_rgb lib Frame fs st = (False, Frame, None, st)
          \<and> (wait_outcome (m_pipeline st) = Inr fs
               \<longrightarrow> getRgbImage lib Frame st
                   = Inr (False, Frame, None, called Call_wait_for_frames st)))
   \<and> (pixFormatToCode (depth_format (get_depth_frame fs)) = VOCAB_PIXEL_INVALID
        \<longrightarrow> getImage_depth dFrame fs st = (False, dFrame, None, st)
          \<and> (wait_outcome (m_pipeline st) = Inr data \<and> align_process (m_pipeline st) data = fs
               \<longrightarrow> getDepthImage dFrame st
                   = Inr (False, dFrame, None, called Call_wait_for_frames st)))
   \<and> (wait_outcome (m_pipeline st1) = Inr data1 \<and> align_process (m_pipeline st1) data1 = fs1
        \<and> pixFormatToCode (frame_format (get_color_frame fs1)) = VOCAB_PIXEL_INVALID
        \<and> pixFormatToCode (depth_format (get_depth_frame fs1)) \<noteq> VOCAB_PIXEL_INVALID
        \<longrightarrow> getImages lib Frame dFrame st1
            = Inr (False, Frame,
                   copy_distances (get_depth_frame fs1) (depth_width (get_depth_frame fs1))
                     (depth_height (get_depth_frame fs1))
                     (depth_resize (depth_width (get_depth_frame fs1))
                        (depth_height (get_depth_frame fs1)) dFrame),
                   None, Some (Suc (m_depth_stamp st1)),
                   (called Call_wait_for_frames st1)\<lparr>m_depth_stamp := Suc (m_depth_stamp st1)\<rparr>))
   \<and> (wait_outcome (m_pipeline st2) = Inr data2 \<and> align_process (m_pipeline st2) data2 = fs2
        \<and> pixFormatToCode (depth_format (get_depth_frame fs2)) = VOCAB_PIXEL_INVALID
        \<longrightarrow> getImages lib Frame dFrame st2
            = (case getImage_rgb lib Frame fs2 (called Call_wait_for_frames st2) of
                 (ok_c, Frame1, colorStamp, st') \<Rightarrow>
                   Inr (False, Frame1, dFrame, colorStamp, None, st')))
   \<and> (wait_outcome (m_pipeline st3) = Inr data3 \<and> align_process (m_pipeline st3) data3 = fs3
        \<and> pixFormatToCode (frame_format (get_color_frame fs3)) = VOCAB_PIXEL_INVALID
        \<and> pixFormatToCode (depth_format (get_depth_frame fs3)) = VOCAB_PIXEL_INVALID
        \<longrightarrow> getImages lib Frame dFrame st3
            = Inr (False, Frame, dFrame, None, None, called Call_wait_for_frames st3))"
proof -
  have other: "fmt \<notin> {RS2_FORMAT_RGB8, RS2_FORMAT_BGR8, RS2_FORMAT_Z16, RS2_FORMAT_DISPARITY16,
               RS2_FORMAT_RGBA8, RS2_FORMAT_BGRA8, RS2_FORMAT_Y8, RS2_FORMAT_Y16,
               RS2_FORMAT_RAW16, RS2_FORMAT_RAW8}
        \<longrightarrow> pixFormatToCode fmt = VOCAB_PIXEL_INVALID"
    by (cases fmt) simp_all
  have rgb: "pixFormatToCode (frame_format (get_color_frame fs)) = VOCAB_PIXEL_INVALID
        \<longrightarrow> getImage_rgb lib Frame fs st = (False, Frame, None, st)
          \<and> (wait_outcome (m_pipeline st) = Inr fs
               \<longrightarrow> getRgbImage lib Frame st
                   = Inr (False, Frame, None, called Call_wait_for_frames st))"
    by (simp add: getImage_rgb_invalid getRgbImage_def wait_for_frames_def Let_def)
  have depth: "pixFormatToCode (depth_format (get_depth_frame fs)) = VOCAB_PIXEL_INVALID
        \<longrightarrow> getImage_depth dFrame fs st = (False, dFrame, None, st)
          \<and> (wait_outcome (m_pipeline st) = Inr data \<and> align_process (m_pipeline st) data = fs
               \<longrightarrow> getDepthImage dFrame st
                   = Inr (False, dFrame, None, called Call_wait_for_frames st))"
    by (auto simp: getImage_depth_invalid getDepthImage_def wait_for_frames_def Let_def)
  have colour_only: "wait_outcome (m_pipeline st1) = Inr data1
        \<and> align_process (m_pipeline st1) data1 = fs1
        \<and> pixFormatToCode (frame_format (get_color_frame fs1)) = VOCAB_PIXEL_INVALID
        \<and> pixFormatToCode (depth_format (get_depth_frame fs1)) \<noteq> VOCAB_PIXEL_INVALID
        \<longrightarrow> getImages lib Frame dFrame st1
            = Inr (False, Frame,
                   copy_distances (get_depth_frame fs1) (depth_width (get_depth_frame fs1))
                     (depth_height (get_depth_frame fs1))
                     (depth_resize (depth_width (get_depth_frame fs1))
                        (depth_height (get_depth_frame fs1)) dFrame),
                   None, Some (Suc (m_depth_stamp st1)),
                   (called Call_wait_for_frames st1)\<lparr>m_depth_stamp := Suc (m_depth_stamp st1)\<rparr>)"
    by (auto simp: getImages_def wait_for_frames_def Let_def getImage_rgb_invalid
        getImage_depth_valid)
  have depth_only: "wait_outcome (m_pipeline st2) = Inr data2
        \<and> align_process (m_pipeline st2) data2 = fs2
        \<and> pixFormatToCode (depth_format (get_depth_frame fs2)) = VOCAB_PIXEL_INVALID
        \<longrightarrow> getImages lib Frame dFrame st2
            = (case getImage_rgb lib Frame fs2 (called Call_wait_for_frames st2) of
                 (ok_c, Frame1, colorStamp, st') \<Rightarrow>
                   Inr (False, Frame1, dFrame, colorStamp, None, st'))"
    by (auto simp: getImages_def wait_for_frames_def Let_def getImage_depth_invalid
        split: prod.splits)
  have both: "wait_outcome (m_pipeline st3) = Inr data3
        \<and> align_process (m_pipeline st3) data3 = fs3
        \<and> pixFormatToCode (frame_format (get_color_frame fs3)) = VOCAB_PIXEL_INVALID
        \<and> pixFormatToCode (depth_format (get_depth_frame fs3)) = VOCAB_PIXEL_INVALID
        \<longrightarrow> getImages lib Frame dFrame st3
            = Inr (False, Frame, dFrame, None, None, called Call_wait_for_frames st3)"
    by (auto simp: getImages_def wait_for_frames_def Let_def getImage_rgb_invalid
        getImage_depth_invalid)
  from other rgb depth colour_only depth_only both show ?thesis by simp
qed

theorem unrecognised_format_fails_witness:
  "RS2_FORMAT_YUYV \<notin> {RS2_FORMAT_RGB8, RS2_FORMAT_BGR8, RS2_FORMAT_Z16, RS2_FORMAT_DISPARITY16,
               RS2_FORMAT_RGBA8, RS2_FORMAT_BGRA8, RS2_FORMAT_Y8, RS2_FORMAT_Y16,
               RS2_FORMAT_RAW16, RS2_FORMAT_RAW8}
   \<and> pixFormatToCode RS2_FORMAT_YUYV = VOCAB_PIXEL_INVALID
   \<and> pixFormatToCode (frame_format (get_color_frame yuyv_frames)) = VOCAB_PIXEL_INVALID
   \<and> pixFormatToCode (depth_format (get_depth_frame yuyv_frames)) = VOCAB_PIXEL_INVALID
   \<and> wait_outcome (m_pipeline yuyv_driver) = Inr yuyv_frames
   \<and> align_process (m_pipeline yuyv_driver) yuyv_frames = yuyv_frames
   \<and> getImage_rgb packed_images blank_image yuyv_frames yuyv_driver
       = (False, blank_image, None, yuyv_driver)
   \<and> getRgbImage packed_images blank_image yuyv_driver
       = Inr (False, blank_image, None, called Call_wait_for_frames yuyv_driver)
   \<and> getImage_depth blank_depth_image yuyv_frames yuyv_driver
       = (False, blank_depth_image, None, yuyv_driver)
   \<and> getDepthImage blank_depth_image yuyv_driver
       = Inr (False, blank_depth_image, None, called Call_wait_for_frames yuyv_driver)
   \<and> wait_outcome (m_pipeline yuyv_z16_driver) = Inr yuyv_z16_frames
   \<and> align_process (m_pipeline yuyv_z16_driver) yuyv_z16_frames = yuyv_z16_frames
   \<and> pixFormatToCode (frame_format (get_color_frame yuyv_z16_frames)) = VOCAB_PIXEL_INVALID
   \<and> pixFormatToCode (depth_format (get_depth_frame yuyv_z16_frames)) \<noteq> VOCAB_PIXEL_INVALID
   \<and> getImages packed_images blank_image blank_depth_image yuyv_z16_driver
       = Inr (False, blank_image,
              copy_distances (get_depth_frame yuyv_z16_frames) 2 2
                (depth_resize 2 2 blank_depth_image),
              None, Some (Suc 0),
              (called Call_wait_for_frames yuyv_z16_driver)\<lparr>m_depth_stamp := Suc 0\<rparr>)
   \<and> wait_outcome (m_pipeline rgb8_xyz_driver) = Inr rgb8_xyz_frames
   \<and> align_process (m_pipeline rgb8_xyz_driver) rgb8_xyz_frames = rgb8_xyz_frames
   \<and> pixFormatToCode (depth_format (get_depth_frame rgb8_xyz_frames)) = VOCAB_PIXEL_INVALID
   \<and> getImages packed_images blank_image blank_depth_image rgb8_xyz_driver
       = (case getImage_rgb packed_images blank_image rgb8_xyz_frames
                 (called Call_wait_for_frames rgb8_xyz_driver) of
            (ok_c, Frame1, colorStamp, st') \<Rightarrow>
              Inr (False, Frame1, blank_depth_image, colorStamp, None, st'))
   \<and> getImages packed_images blank_image blank_depth_image yuyv_driver
       = Inr (False, blank_image, blank_depth_image, None, None,
              called Call_wait_for_frames yuyv_driver)"
  using unrecognised_format_fails
    [of RS2_FORMAT_YUYV yuyv_frames packed_images blank_image yuyv_driver blank_depth_image
        yuyv_frames yuyv_z16_driver yuyv_z16_frames yuyv_z16_frames
        rgb8_xyz_driver rgb8_xyz_frames rgb8_xyz_frames
        yuyv_driver yuyv_frames yuyv_frames]
  by (simp add: yuyv_frames_def yuyv_z16_frames_def rgb8_xyz_frames_def test_frames_def
      yuyv_driver_def yuyv_z16_driver_def rgb8_xyz_driver_def test_driver_def test_pipeline_def)

subsection \<open>C8: closing\<close>

text \<open>
  C8: \<^verbatim>\<open>close\<close> returns success in every state, also when the pipeline's \<^verbatim>\<open>stop\<close>
  throws and \<^verbatim>\<open>pipelineShutdown\<close> therefore returns failure.
\<close>

theorem close_returns_success:
  "fst (close st) = True
   \<and> (stop_outcome (m_pipeline st) = Inl e
        \<longrightarrow> fst (pipelineShutdown st) = False \<and> fst (close st) = True)"
  by (simp add: close_def pipelineShutdown_def called_def Let_def split: prod.splits sum.splits)

theorem close_returns_success_witness:
  "stop_outcome (m_pipeline stop_failing_driver) = Inl (Rs2_error ''stop() called before start()'')
   \<and> fst (pipelineShutdown stop_failing_driver) = False
   \<and> fst (close stop_failing_driver) = True"
  using close_returns_success [of stop_failing_driver "Rs2_error ''stop() called before start()''"]
  by (simp add: stop_failing_driver_def)

subsection \<open>C9: both streams are enabled\<close>

text \<open>
  C9: whatever they return, \<^verbatim>\<open>setDepthResolution\<close> and \<^verbatim>\<open>setRgbResolution\<close> leave both
  streams enabled in \<^verbatim>\<open>m_cfg\<close>: the stream being changed with the requested width and
  height, the other one with the width and height recorded in its intrinsics before the
  call (colour as RGB8, depth as Z16, frame rate 0).
\<close>

theorem resolution_change_enables_both_streams:
  "m_cfg (snd (setDepthResolution w h st)) RS2_STREAM_DEPTH = Some (w, h, RS2_FORMAT_Z16, 0)
   \<and> m_cfg (snd (setDepthResolution w h st)) RS2_STREAM_COLOR
       = Some (width (m_color_intrin st), height (m_color_intrin st), RS2_FORMAT_RGB8, 0)
   \<and> m_cfg (snd (setRgbResolution w h st)) RS2_STREAM_COLOR = Some (w, h, RS2_FORMAT_RGB8, 0)
   \<and> m_cfg (snd (setRgbResolution w h st)) RS2_STREAM_DEPTH
       = Some (width (m_depth_intrin st), height (m_depth_intrin st), RS2_FORMAT_Z16, 0)"
  by (simp add: setDepthResolution_def setRgbResolution_def pipeline_defs Let_def
      split: sum.splits prod.splits)

theorem resolution_change_enables_both_streams_witness:
  "m_cfg test_driver RS2_STREAM_COLOR = None
   \<and> m_cfg (snd (setDepthResolution 320 240 test_driver)) RS2_STREAM_DEPTH
       = Some (320, 240, RS2_FORMAT_Z16, 0)
   \<and> m_cfg (snd (setDepthResolution 320 240 test_driver)) RS2_STREAM_COLOR
       = Some (1, 1, RS2_FORMAT_RGB8, 0)
   \<and> m_cfg (snd (setRgbResolution 320 240 stop_failing_driver)) RS2_STREAM_COLOR
       = Some (320, 240, RS2_FORMAT_RGB8, 0)
   \<and> m_cfg (snd (setRgbResolution 320 240 stop_failing_driver)) RS2_STREAM_DEPTH
       = Some (2, 2, RS2_FORMAT_Z16, 0)"
  using resolution_change_enables_both_streams [of 320 240 test_driver]
    resolution_change_enables_both_streams [of 320 240 stop_failing_driver]
  by (simp add: test_doubles)

subsection \<open>C10: the mode of the features without an auto-enable option\<close>

text \<open>
  C10: for gain, frame rate, sharpness, hue and saturation, \<^verbatim>\<open>getMode\<close> returns success
  and reports \<^verbatim>\<open>MODE_MANUAL\<close> without any vendor call (the driver, with its record of
  calls, is unchanged): \<^verbatim>\<open>res\<close> keeps its initial value 0.
\<close>

theorem getMode_manual_without_read:
  "f \<in> {YARP_FEATURE_GAIN, YARP_FEATURE_FRAME_RATE, YARP_FEATURE_SHARPNESS, YARP_FEATURE_HUE,
         YARP_FEATURE_SATURATION}
   \<Longrightarrow> getMode f st = (True, Some MODE_MANUAL, st)"
  by (auto simp: getMode_def not_supported_iff feature_ids)

theorem getMode_manual_without_read_witness:
  "YARP_FEATURE_FRAME_RATE \<in> {YARP_FEATURE_GAIN, YARP_FEATURE_FRAME_RATE, YARP_FEATURE_SHARPNESS,
         YARP_FEATURE_HUE, YARP_FEATURE_SATURATION}
   \<and> getMode YARP_FEATURE_FRAME_RATE test_driver = (True, Some MODE_MANUAL, test_driver)"
  using getMode_manual_without_read [of YARP_FEATURE_FRAME_RATE test_driver]
  by simp

end
